theory Spec2Isabelle
  imports Main "HOL-Library.Word"
begin

unbundle bit_operations_syntax

section \<open>The calling process and the operating system\<close>

text \<open>
  \<^verbatim>\<open>pty_spawn.c\<close> is four C functions whose whole work is a sequence of calls into the
  operating system. A C \<open>int\<close> is modelled as an \<open>int\<close> of HOL; the one place where the
  code can leave the range of a 32-bit \<open>int\<close> (the \<open>elapsed\<close> counter of \<open>pty_wait\<close>) and the
  one place where it narrows to 16 bits (\<open>struct winsize\<close>) are written out.

  The calls a function issues are recorded, oldest first, in the field \<open>calls\<close> of the
  process state, each with the arguments the code passes. What a call returns is not
  decided by the code: it is read from a record of answers (one record type per function),
  so that every theorem below holds for every behaviour of the operating system.
\<close>

record winsize =
  ws_row :: "16 word"
  ws_col :: "16 word"
  ws_xpixel :: "16 word"
  ws_ypixel :: "16 word"

datatype syscall =
    PthreadSigmask "int list"
  | Fork
  | Sigaction int
  | Setsid
  | OpenRdwr string
  | IoctlTIOCSCTTY int int
  | Dup2 int int
  | Close int
  | Chdir string
  | Execve string "string list" "string list"
  | Exit int
  | PosixOpenpt
  | Grantpt int
  | Unlockpt int
  | Ptsname int
  | IoctlTIOCSWINSZ int winsize
  | Waitpid int int
  | Usleep int

record proc =
  sigmask :: "int list"
  errno :: int
  calls :: "syscall list"

text \<open>\<^verbatim>\<open>EINVAL\<close> of \<^verbatim>\<open><errno.h>\<close> (22 on Linux and macOS) and \<^verbatim>\<open>INT_MAX\<close> of a 32-bit \<open>int\<close>.\<close>

definition EINVAL :: int where
  "EINVAL = 22"

definition INT_MAX :: int where
  "INT_MAX = 2147483647"

text \<open>
  \<open>os_call c failed e s\<close>: the process in state \<open>s\<close> issues the call \<open>c\<close>; when the call
  fails it leaves the cause \<open>e\<close> in \<open>errno\<close>, otherwise \<open>errno\<close> keeps its value.
\<close>

definition os_call :: "syscall \<Rightarrow> bool \<Rightarrow> int \<Rightarrow> proc \<Rightarrow> proc" where
  "os_call c failed e s =
     s\<lparr>calls := calls s @ [c], errno := (if failed then e else errno s)\<rparr>"

text \<open>
  The answer of a call that returns an \<open>int\<close>: the value returned and the cause the call
  leaves in \<open>errno\<close> when that value is negative.
\<close>

datatype answer = Answer (ret: int) (err: int)

definition sys :: "syscall \<Rightarrow> answer \<Rightarrow> proc \<Rightarrow> proc" where
  "sys c a s = os_call c (ret a < 0) (err a) s"

text \<open>
  An output pointer is an \<open>option\<close>: \<open>None\<close> is \<^verbatim>\<open>NULL\<close>, \<open>Some v\<close> a cell that holds
  \<open>v\<close>. A function returns the cell as it leaves it; \<open>store p v\<close> is \<^verbatim>\<open>*p = v\<close>, which the
  code only executes on a pointer it has checked.
\<close>

definition store :: "'a option \<Rightarrow> 'a \<Rightarrow> 'a option" where
  "store p v = (case p of None \<Rightarrow> None | Some _ \<Rightarrow> Some v)"

section \<open>pty_spawn\<close>

text \<open>
  The constants of \<^verbatim>\<open><signal.h>\<close>, the set that the library function \<^verbatim>\<open>sigfillset\<close> stores
  and whether \<^verbatim>\<open>TIOCSCTTY\<close> is defined depend on the platform the file is compiled for;
  they are parameters. On Linux with glibc: \<open>NSIG = 65\<close>, \<open>SIGKILL = 9\<close>, \<open>SIGSTOP = 19\<close>,
  \<^verbatim>\<open>sigfillset\<close> stores every signal from 1 to 64 but 32 and 33, which glibc keeps for
  itself, and \<^verbatim>\<open>TIOCSCTTY\<close> is defined.
\<close>

record platform =
  NSIG :: int
  SIGKILL :: int
  SIGSTOP :: int
  full_sigset :: "int list"
  has_TIOCSCTTY :: bool

definition STDIN_FILENO :: int where "STDIN_FILENO = 0"
definition STDOUT_FILENO :: int where "STDOUT_FILENO = 1"
definition STDERR_FILENO :: int where "STDERR_FILENO = 2"

text \<open>
  The answers of the operating system to the calls of \<open>pty_spawn\<close>. \<open>fork\<close> returns in two
  processes; the model follows the one in which it returns \<open>ret (fork_ans os)\<close>: \<open>-1\<close> is
  the caller after a failed fork, \<open>0\<close> the child, any other value the caller with the
  child's pid. \<open>pthread_sigmask\<close> with \<^verbatim>\<open>SIG_SETMASK\<close> does not fail, but like any library
  call it may leave a value in \<open>errno\<close> (\<open>sigmask_errno\<close>). \<open>sigaction\<close> is answered per
  signal, the \<^verbatim>\<open>TIOCSCTTY\<close> request per third argument, \<open>dup2\<close> per target descriptor.
  \<open>execve\<close> returns only when it fails: \<open>execve_err\<close> is \<open>None\<close> when the image is replaced.
\<close>

record spawn_os =
  sigmask_errno :: "int option"
  fork_ans :: answer
  sigaction_ans :: "int \<Rightarrow> answer"
  setsid_ans :: answer
  open_ans :: answer
  ioctl_ans :: "int \<Rightarrow> answer"
  dup2_ans :: "int \<Rightarrow> answer"
  close_ans :: answer
  chdir_ans :: answer
  execve_err :: "int option"

text \<open>
  How the process that runs \<open>pty_spawn\<close> leaves it: the function returns to its caller, or
  (in the child) the process ends with \<^verbatim>\<open>_exit\<close>, or its image is replaced by \<open>execve\<close>.
\<close>

datatype spawn_outcome =
    Returns int
  | ChildExit int
  | ChildExec string "string list" "string list"

text \<open>\<^verbatim>\<open>sigfillset(&all_signals)\<close>: the full signal set of the platform.\<close>

definition sigfillset :: "platform \<Rightarrow> int list" where
  "sigfillset pf = full_sigset pf"

text \<open>\<^verbatim>\<open>pthread_sigmask(SIG_SETMASK, &sigs, ...)\<close>: installs \<open>sigs\<close> as the signal mask.\<close>

definition pthread_sigmask :: "spawn_os \<Rightarrow> int list \<Rightarrow> proc \<Rightarrow> proc" where
  "pthread_sigmask os sigs s =
     s\<lparr>sigmask := sigs,
       errno := (case sigmask_errno os of None \<Rightarrow> errno s | Some e \<Rightarrow> e),
       calls := calls s @ [PthreadSigmask sigs]\<rparr>"

text \<open>\<^verbatim>\<open>_exit(code)\<close>.\<close>

definition exit_child :: "int \<Rightarrow> proc \<Rightarrow> spawn_outcome \<times> proc" where
  "exit_child code s = (ChildExit code, s\<lparr>calls := calls s @ [Exit code]\<rparr>)"

text \<open>
  Lines 96-99: the loop over the signal numbers, entered with the current value of \<open>sig\<close>.
  \<open>Sigaction sig\<close> is \<^verbatim>\<open>sigaction(sig, &sa_default, NULL)\<close> with \<^verbatim>\<open>sa_handler = SIG_DFL\<close>;
  what it returns is not looked at.
\<close>

function reset_handlers :: "platform \<Rightarrow> spawn_os \<Rightarrow> int \<Rightarrow> proc \<Rightarrow> proc" where
  "reset_handlers pf os sig s =
     (if sig < NSIG pf then
        (if sig = SIGKILL pf \<or> sig = SIGSTOP pf then reset_handlers pf os (sig + 1) s
         else reset_handlers pf os (sig + 1) (sys (Sigaction sig) (sigaction_ans os sig) s))
      else s)"
  by pat_completeness auto
termination
  by (relation "measure (\<lambda>(pf, os, sig, s). nat (NSIG pf - sig))") auto

declare reset_handlers.simps [simp del]

text \<open>Lines 116-122, compiled in only where \<^verbatim>\<open>TIOCSCTTY\<close> is defined.\<close>

definition set_ctty :: "platform \<Rightarrow> spawn_os \<Rightarrow> int \<Rightarrow> proc \<Rightarrow> proc" where
  "set_ctty pf os slave_fd s =
     (if has_TIOCSCTTY pf then
        let s1 = sys (IoctlTIOCSCTTY slave_fd 0) (ioctl_ans os 0) s
        in if ret (ioctl_ans os 0) < 0
           then sys (IoctlTIOCSCTTY slave_fd 1) (ioctl_ans os 1) s1
           else s1
      else s)"

text \<open>Lines 135-152: from the close of the spare descriptor to the end of the child.\<close>

definition child_exec ::
  "spawn_os \<Rightarrow> string list \<Rightarrow> string \<Rightarrow> string list \<Rightarrow> string list option \<Rightarrow>
   string option \<Rightarrow> int \<Rightarrow> proc \<Rightarrow> spawn_outcome \<times> proc"
where
  "child_exec os environ path argv envp working_dir slave_fd s =
     (let s1 = (if slave_fd > STDERR_FILENO then sys (Close slave_fd) (close_ans os) s else s);
          s2 = (case working_dir of
                  None \<Rightarrow> s1
                | Some dir \<Rightarrow> if dir \<noteq> [] then sys (Chdir dir) (chdir_ans os) s1 else s1);
          env = (case envp of Some e \<Rightarrow> e | None \<Rightarrow> environ)
      in case execve_err os of
           None \<Rightarrow> (ChildExec path argv env, s2\<lparr>calls := calls s2 @ [Execve path argv env]\<rparr>)
         | Some e \<Rightarrow> exit_child 127 (os_call (Execve path argv env) True e s2))"

text \<open>Lines 86-153: the child, from the first statement after \<open>fork\<close> returned 0.\<close>

definition child ::
  "platform \<Rightarrow> spawn_os \<Rightarrow> string list \<Rightarrow> string \<Rightarrow> string list \<Rightarrow> string list option \<Rightarrow>
   string \<Rightarrow> string option \<Rightarrow> int list \<Rightarrow> proc \<Rightarrow> spawn_outcome \<times> proc"
where
  "child pf os environ path argv envp slave_name working_dir old_signals s =
     (let s1 = pthread_sigmask os old_signals s;
          s2 = reset_handlers pf os 1 s1;
          s3 = sys Setsid (setsid_ans os) s2
      in if ret (setsid_ans os) < 0 then exit_child 127 s3
         else
           let slave_fd = ret (open_ans os);
               s4 = sys (OpenRdwr slave_name) (open_ans os) s3
           in if slave_fd < 0 then exit_child 127 s4
              else
                let s5 = set_ctty pf os slave_fd s4;
                    s6 = sys (Dup2 slave_fd STDIN_FILENO) (dup2_ans os STDIN_FILENO) s5
                in if ret (dup2_ans os STDIN_FILENO) < 0 then exit_child 127 s6
                   else
                     let s7 = sys (Dup2 slave_fd STDOUT_FILENO) (dup2_ans os STDOUT_FILENO) s6
                     in if ret (dup2_ans os STDOUT_FILENO) < 0 then exit_child 127 s7
                        else
                          let s8 = sys (Dup2 slave_fd STDERR_FILENO) (dup2_ans os STDERR_FILENO) s7
                          in if ret (dup2_ans os STDERR_FILENO) < 0 then exit_child 127 s8
                             else child_exec os environ path argv envp working_dir slave_fd s8)"

text \<open>
  \<open>pty_spawn\<close> itself. The result is the outcome, the cell \<^verbatim>\<open>*out_pid\<close> and the state of
  the process. \<open>environ\<close> is the global of that name.
\<close>

definition pty_spawn ::
  "platform \<Rightarrow> spawn_os \<Rightarrow> string list \<Rightarrow> string option \<Rightarrow> string list option \<Rightarrow>
   string list option \<Rightarrow> string option \<Rightarrow> string option \<Rightarrow> int option \<Rightarrow> proc \<Rightarrow>
   spawn_outcome \<times> int option \<times> proc"
where
  "pty_spawn pf os environ path argv envp slave_name working_dir out_pid s =
     (case (path, argv, slave_name, out_pid) of
        (Some path', Some argv', Some slave_name', Some _) \<Rightarrow>
          let all_signals = sigfillset pf;
              old_signals = sigmask s;
              s1 = pthread_sigmask os all_signals s;
              pid = ret (fork_ans os);
              s2 = sys Fork (fork_ans os) s1
          in if pid = -1 then
               let saved_errno = errno s2;
                   s3 = pthread_sigmask os old_signals s2
               in (Returns (-1), out_pid, s3\<lparr>errno := saved_errno\<rparr>)
             else if pid = 0 then
               (case child pf os environ path' argv' envp slave_name' working_dir old_signals s2 of
                  (outcome, s3) \<Rightarrow> (outcome, out_pid, s3))
             else
               let s3 = pthread_sigmask os old_signals s2
               in (Returns 0, store out_pid pid, s3)
      | _ \<Rightarrow> (Returns (-1), out_pid, s\<lparr>errno := EINVAL\<rparr>))"

section \<open>pty_open and pty_resize\<close>

text \<open>
  The answers of the operating system to the calls of \<open>pty_open\<close>. \<open>ptsname\<close> returns a
  string or \<^verbatim>\<open>NULL\<close> (\<open>None\<close>), leaving \<open>ptsname_errno\<close> in \<open>errno\<close> in that case.
\<close>

record open_os =
  posix_openpt_ans :: answer
  grantpt_ans :: answer
  unlockpt_ans :: answer
  ptsname_ans :: "string option"
  ptsname_errno :: int
  close_master_ans :: answer
  winsz_ans :: answer

text \<open>
  Lines 224-228 and 247-251: the fields of \<^verbatim>\<open>struct winsize\<close> are \<^verbatim>\<open>unsigned short\<close>, so the
  assignment of an \<open>int\<close> keeps its low 16 bits.
\<close>

definition make_winsize :: "int \<Rightarrow> int \<Rightarrow> winsize" where
  "make_winsize width height =
     \<lparr>ws_row = word_of_int height, ws_col = word_of_int width, ws_xpixel = 0, ws_ypixel = 0\<rparr>"

text \<open>
  Lines 195-198, 203-206 and 212-215: \<^verbatim>\<open>saved_errno = errno; close(master_fd);
  errno = saved_errno; return -1\<close>.
\<close>

definition close_and_fail ::
  "open_os \<Rightarrow> int \<Rightarrow> int option \<Rightarrow> string option \<Rightarrow> proc \<Rightarrow> int \<times> int option \<times> string option \<times> proc"
where
  "close_and_fail os master_fd out_master_fd out_slave_name s =
     (let saved_errno = errno s;
          s1 = sys (Close master_fd) (close_master_ans os) s
      in (-1, out_master_fd, out_slave_name, s1\<lparr>errno := saved_errno\<rparr>))"

text \<open>
  \<open>pty_open\<close>. The result is the value returned, the cells \<^verbatim>\<open>*out_master_fd\<close> and
  \<^verbatim>\<open>out_slave_name\<close> (the C string in the buffer) and the state of the process.
  \<^verbatim>\<open>strncpy\<close> with the terminator written at \<open>slave_name_len - 1\<close> leaves the first
  \<open>slave_name_len - 1\<close> characters of the name in the buffer.
\<close>

definition pty_open ::
  "open_os \<Rightarrow> int option \<Rightarrow> string option \<Rightarrow> int \<Rightarrow> int \<Rightarrow> int \<Rightarrow> proc \<Rightarrow>
   int \<times> int option \<times> string option \<times> proc"
where
  "pty_open os out_master_fd out_slave_name slave_name_len width height s =
     (if out_master_fd = None \<or> out_slave_name = None \<or> slave_name_len < 256 then
        (-1, out_master_fd, out_slave_name, s\<lparr>errno := EINVAL\<rparr>)
      else
        let master_fd = ret (posix_openpt_ans os);
            s1 = sys PosixOpenpt (posix_openpt_ans os) s
        in if master_fd < 0 then (-1, out_master_fd, out_slave_name, s1)
           else
             let s2 = sys (Grantpt master_fd) (grantpt_ans os) s1
             in if ret (grantpt_ans os) < 0
                then close_and_fail os master_fd out_master_fd out_slave_name s2
                else
                  let s3 = sys (Unlockpt master_fd) (unlockpt_ans os) s2
                  in if ret (unlockpt_ans os) < 0
                     then close_and_fail os master_fd out_master_fd out_slave_name s3
                     else
                       let s4 = os_call (Ptsname master_fd) (ptsname_ans os = None)
                                  (ptsname_errno os) s3
                       in case ptsname_ans os of
                            None \<Rightarrow> close_and_fail os master_fd out_master_fd out_slave_name s4
                          | Some slave_name \<Rightarrow>
                              let name = take (nat (slave_name_len - 1)) slave_name;
                                  s5 = (if width > 0 \<and> height > 0
                                        then sys (IoctlTIOCSWINSZ master_fd (make_winsize width height))
                                               (winsz_ans os) s4
                                        else s4)
                              in (0, store out_master_fd master_fd, store out_slave_name name, s5))"

text \<open>\<open>pty_resize\<close> returns what the \<^verbatim>\<open>TIOCSWINSZ\<close> request returns.\<close>

definition pty_resize :: "answer \<Rightarrow> int \<Rightarrow> int \<Rightarrow> int \<Rightarrow> proc \<Rightarrow> int \<times> proc" where
  "pty_resize ioctl_answer master_fd width height s =
     (ret ioctl_answer,
      sys (IoctlTIOCSWINSZ master_fd (make_winsize width height)) ioctl_answer s)"

section \<open>pty_wait\<close>

text \<open>
  Modelled from the spec: the status macros \<^verbatim>\<open>WIFEXITED\<close>, \<^verbatim>\<open>WEXITSTATUS\<close>, \<^verbatim>\<open>WIFSIGNALED\<close>
  and \<^verbatim>\<open>WTERMSIG\<close> come from the system header \<^verbatim>\<open><sys/wait.h>\<close>, which the repository does
  not contain. The spec tells three shapes of a raw status apart: normal termination with
  an exit code in 0..255, termination by a signal, and any other shape. The macros are
  given here as glibc defines them, with the encoding that Linux and macOS share: the low
  seven bits of a raw status hold the terminating signal (0 for a normal exit, \<open>0x7f\<close>
  for a stopped process), bits 8 to 15 the exit code. \<^verbatim>\<open>WNOHANG\<close> is 1 on both.
\<close>

definition WEXITSTATUS :: "int \<Rightarrow> int" where
  "WEXITSTATUS status = drop_bit 8 (status AND 0xff00)"

definition WTERMSIG :: "int \<Rightarrow> int" where
  "WTERMSIG status = status AND 0x7f"

definition WIFEXITED :: "int \<Rightarrow> bool" where
  "WIFEXITED status = (WTERMSIG status = 0)"

text \<open>glibc: \<^verbatim>\<open>((signed char) (((status) & 0x7f) + 1) >> 1) > 0\<close>.\<close>

definition WIFSIGNALED :: "int \<Rightarrow> bool" where
  "WIFSIGNALED status =
     (0 < sint (signed_drop_bit 1 (word_of_int ((status AND 0x7f) + 1) :: 8 word)))"

definition WNOHANG :: int where
  "WNOHANG = 1"

text \<open>
  The translation of a raw status that both branches of \<open>pty_wait\<close> write to
  \<^verbatim>\<open>*out_status\<close> (lines 273-279 and 297-303 of the source).
\<close>

definition exit_status_of :: "int \<Rightarrow> int" where
  "exit_status_of status =
     (if WIFEXITED status then WEXITSTATUS status
      else if WIFSIGNALED status then 128 + WTERMSIG status
      else -1)"

text \<open>
  What \<open>pty_wait\<close> does: it returns a value, or its counter \<open>elapsed\<close> is incremented
  beyond \<open>INT_MAX\<close>, which C leaves undefined.
\<close>

datatype wait_outcome = Return int | SignedOverflow

text \<open>
  An answer of \<open>waitpid\<close>: the value returned, the raw status it stores when that value is
  a pid, and the cause it leaves in \<open>errno\<close> when it fails. The answers of the operating
  system to \<open>pty_wait\<close> are a sequence: \<open>w k\<close> answers the \<open>k\<close>-th call from now.
\<close>

record waitpid_ret =
  wp_result :: int
  wp_status :: int
  wp_errno :: int

type_synonym waitpid_os = "nat \<Rightarrow> waitpid_ret"

definition waitpid :: "waitpid_ret \<Rightarrow> int \<Rightarrow> int \<Rightarrow> proc \<Rightarrow> proc" where
  "waitpid a pid options s = os_call (Waitpid pid options) (wp_result a < 0) (wp_errno a) s"

text \<open>
  Lines 285-311: the polling loop, entered with the current value of \<open>elapsed\<close>. The
  recursive call is the next iteration, answered by the rest of the sequence. What
  \<^verbatim>\<open>usleep(10000)\<close> returns is not looked at by the code; the call is recorded, and a value
  it might leave in \<open>errno\<close> is not modelled.
\<close>

function poll_loop ::
  "waitpid_os \<Rightarrow> int \<Rightarrow> int \<Rightarrow> int option \<Rightarrow> int \<Rightarrow> proc \<Rightarrow> wait_outcome \<times> int option \<times> proc"
where
  "poll_loop w pid timeout_ms out_status elapsed s =
     (if elapsed < timeout_ms then
        let result = wp_result (w 0);
            status = wp_status (w 0);
            s1 = waitpid (w 0) pid WNOHANG s
        in if result < 0 then (Return (-1), out_status, s1)
           else if result > 0 then (Return 0, store out_status (exit_status_of status), s1)
           else
             let s2 = os_call (Usleep 10000) False 0 s1
             in if elapsed + 10 > INT_MAX then (SignedOverflow, out_status, s2)
                else poll_loop (\<lambda>k. w (Suc k)) pid timeout_ms out_status (elapsed + 10) s2
      else (Return 1, out_status, s))"
  by pat_completeness auto
termination
  by (relation "measure (\<lambda>(w, pid, timeout_ms, out_status, elapsed, s). nat (timeout_ms - elapsed))")
     auto

declare poll_loop.simps [simp del]

definition pty_wait ::
  "waitpid_os \<Rightarrow> int \<Rightarrow> int \<Rightarrow> int option \<Rightarrow> proc \<Rightarrow> wait_outcome \<times> int option \<times> proc"
where
  "pty_wait w pid timeout_ms out_status s =
     (if timeout_ms < 0 then
        let result = wp_result (w 0);
            status = wp_status (w 0);
            s1 = waitpid (w 0) pid 0 s
        in if result < 0 then (Return (-1), out_status, s1)
           else (Return 0, store out_status (exit_status_of status), s1)
      else poll_loop w pid timeout_ms out_status 0 s)"

section \<open>Call sequences and sample inputs\<close>

text \<open>
  The signals whose handler the loop of lines 96-99 resets, from \<open>sig\<close> on: every signal
  number below \<open>NSIG\<close> but \<open>SIGKILL\<close> and \<open>SIGSTOP\<close>.
\<close>

definition resettable :: "platform \<Rightarrow> int \<Rightarrow> int list" where
  "resettable pf sig = filter (\<lambda>n. n \<noteq> SIGKILL pf \<and> n \<noteq> SIGSTOP pf) [sig..NSIG pf - 1]"

text \<open>\<open>k\<close> rounds of the polling loop that found the child still running.\<close>

definition polls :: "int \<Rightarrow> nat \<Rightarrow> syscall list" where
  "polls pid k = concat (replicate k [Waitpid pid WNOHANG, Usleep 10000])"

text \<open>A process that has issued no call, and answers of \<open>waitpid\<close> used as sample inputs.\<close>

definition proc0 :: proc where
  "proc0 = \<lparr>sigmask = [], errno = 0, calls = []\<rparr>"

definition still_running :: waitpid_ret where
  "still_running = \<lparr>wp_result = 0, wp_status = 0, wp_errno = 0\<rparr>"

definition never_exits :: waitpid_os where
  "never_exits = (\<lambda>k. still_running)"

definition exits_with_3 :: "nat \<Rightarrow> waitpid_os" where
  "exits_with_3 n = (\<lambda>k. if k < n then still_running
                           else \<lparr>wp_result = 4242, wp_status = 768, wp_errno = 0\<rparr>)"

text \<open>Answers of the operating system to \<open>pty_open\<close> used as sample inputs.\<close>

definition opens_fine :: open_os where
  "opens_fine = \<lparr>posix_openpt_ans = Answer 5 0, grantpt_ans = Answer 0 0,
     unlockpt_ans = Answer 0 0, ptsname_ans = Some ''/dev/pts/7'', ptsname_errno = 0,
     close_master_ans = Answer 0 0, winsz_ans = Answer 0 0\<rparr>"

text \<open>\<open>unlockpt\<close> fails with cause 9, and the \<open>close\<close> that cleans up fails with cause 5.\<close>

definition unlock_fails :: open_os where
  "unlock_fails =
     opens_fine\<lparr>unlockpt_ans := Answer (- 1) 9, close_master_ans := Answer (- 1) 5\<rparr>"

text \<open>
  Linux with glibc, and answers to \<open>pty_spawn\<close>: every call succeeds and \<open>fork\<close> returns in
  the child (\<open>in_child\<close>) or in the caller (\<open>in_parent\<close>); \<open>fork\<close> fails with cause 11 and
  \<open>pthread_sigmask\<close> leaves 4 in \<open>errno\<close> (\<open>fork_fails\<close>); in the child, \<open>sigaction\<close> fails
  for the signals 32 and 33 (which glibc reserves), the first \<^verbatim>\<open>TIOCSCTTY\<close> request fails and
  \<open>close\<close> fails (\<open>ignored_failures\<close>).
\<close>

definition linux :: platform where
  "linux = \<lparr>NSIG = 65, SIGKILL = 9, SIGSTOP = 19, full_sigset = [1..31] @ [34..64],
     has_TIOCSCTTY = True\<rparr>"

definition in_child :: spawn_os where
  "in_child = \<lparr>sigmask_errno = None, fork_ans = Answer 0 0, sigaction_ans = (\<lambda>sig. Answer 0 0),
     setsid_ans = Answer 4242 0, open_ans = Answer 3 0, ioctl_ans = (\<lambda>arg. Answer 0 0),
     dup2_ans = (\<lambda>fd. Answer fd 0), close_ans = Answer 0 0, chdir_ans = Answer 0 0,
     execve_err = None\<rparr>"

definition in_parent :: spawn_os where
  "in_parent = in_child\<lparr>fork_ans := Answer 4242 0\<rparr>"

definition fork_fails :: spawn_os where
  "fork_fails = in_child\<lparr>fork_ans := Answer (- 1) 11, sigmask_errno := Some 4\<rparr>"

definition ignored_failures :: spawn_os where
  "ignored_failures = in_child
     \<lparr>sigaction_ans := (\<lambda>sig. if sig = 32 \<or> sig = 33 then Answer (- 1) 22 else Answer 0 0),
      ioctl_ans := (\<lambda>arg. if arg = 0 then Answer (- 1) 1 else Answer 0 0),
      close_ans := Answer (- 1) 5\<rparr>"

text \<open>
  The dispositions of the signals in the child. \<open>fork\<close> leaves them as they are in the
  caller: \<open>h sig\<close> says that a handler is installed for \<open>sig\<close>. A call
  \<^verbatim>\<open>sigaction(sig, &sa_default, NULL)\<close> that succeeds makes the disposition of \<open>sig\<close> the
  default one, no other call of \<open>pty_spawn\<close> changes a disposition.
  \<open>dispositions_after os h cs\<close> is the table after the calls \<open>cs\<close>, answered by \<open>os\<close>.
  \<open>handles_sigterm\<close> is a caller that has installed a handler for \<^verbatim>\<open>SIGTERM\<close> (15) only.
\<close>

fun dispositions_after :: "spawn_os \<Rightarrow> (int \<Rightarrow> bool) \<Rightarrow> syscall list \<Rightarrow> int \<Rightarrow> bool" where
  "dispositions_after os h [] = h"
| "dispositions_after os h (Sigaction sig # cs) =
     dispositions_after os (if ret (sigaction_ans os sig) < 0 then h else h(sig := False)) cs"
| "dispositions_after os h (c # cs) = dispositions_after os h cs"

definition handles_sigterm :: "int \<Rightarrow> bool" where
  "handles_sigterm = (\<lambda>sig. sig = 15)"

text \<open>\<open>extends s t\<close>: the process in state \<open>t\<close> has issued the calls of \<open>s\<close> and then some more.\<close>

definition extends :: "proc \<Rightarrow> proc \<Rightarrow> bool" where
  "extends s t = (\<exists>r. calls t = calls s @ r)"

section \<open>Lemmas\<close>

subsection \<open>The process state\<close>

lemma sigmask_os_call: "sigmask (os_call c f e s) = sigmask s"
  and calls_os_call: "calls (os_call c f e s) = calls s @ [c]"
  and errno_os_call: "errno (os_call c f e s) = (if f then e else errno s)"
  by (simp_all add: os_call_def)

lemma sigmask_sys: "sigmask (sys c a s) = sigmask s"
  and calls_sys: "calls (sys c a s) = calls s @ [c]"
  by (simp_all add: sys_def os_call_def)

lemma reset_handlers_sigmask: "sigmask (reset_handlers pf os sig s) = sigmask s"
  by (induction pf os sig s rule: reset_handlers.induct)
     (subst reset_handlers.simps, simp add: sigmask_sys)

lemma reset_handlers_calls:
  "calls (reset_handlers pf os sig s) = calls s @ map Sigaction (resettable pf sig)"
proof (induction pf os sig s rule: reset_handlers.induct)
  case (1 pf os sig s)
  show ?case
  proof (cases "sig < NSIG pf")
    case True
    then have u: "[sig..NSIG pf - 1] = sig # [sig + 1..NSIG pf - 1]"
      by (simp add: upto_rec1)
    show ?thesis
      using True 1 by (subst reset_handlers.simps) (simp add: resettable_def u calls_sys)
  next
    case False
    then show ?thesis
      by (subst reset_handlers.simps) (simp add: resettable_def)
  qed
qed

subsection \<open>Raw statuses\<close>

lemma and_255: "(x::int) AND 255 = take_bit 8 x"
proof -
  have "mask 8 = (255::int)" by (simp add: mask_eq_exp_minus_1)
  then show ?thesis by (simp add: take_bit_eq_mask)
qed

lemma and_127: "(x::int) AND 127 = take_bit 7 x"
proof -
  have "mask 7 = (127::int)" by (simp add: mask_eq_exp_minus_1)
  then show ?thesis by (simp add: take_bit_eq_mask)
qed

lemma WEXITSTATUS_eq: "WEXITSTATUS st = take_bit 8 (drop_bit 8 st)"
proof -
  have "drop_bit 8 (65280::int) = 255" by (simp add: drop_bit_eq_div)
  then show ?thesis by (simp add: WEXITSTATUS_def and_255)
qed

lemma WEXITSTATUS_range: "0 \<le> WEXITSTATUS st \<and> WEXITSTATUS st \<le> 255"
proof -
  have "take_bit 8 (drop_bit 8 st) < (2::int) ^ 8" by (rule take_bit_int_less_exp)
  then show ?thesis by (simp add: WEXITSTATUS_eq)
qed

lemma WTERMSIG_range: "0 \<le> WTERMSIG st \<and> WTERMSIG st \<le> 127"
proof -
  have "take_bit 7 st < (2::int) ^ 7" by (rule take_bit_int_less_exp)
  then show ?thesis by (simp add: WTERMSIG_def and_127)
qed

lemma WIFSIGNALED_iff: "WIFSIGNALED st \<longleftrightarrow> 1 \<le> WTERMSIG st \<and> WTERMSIG st \<le> 126"
proof -
  define t where "t = WTERMSIG st"
  have r: "0 \<le> t" "t \<le> 127" using WTERMSIG_range [of st] by (simp_all add: t_def)
  have s: "WIFSIGNALED st \<longleftrightarrow> 0 < drop_bit 1 (signed_take_bit 7 (t + 1))"
  proof -
    have "sint (word_of_int (t + 1) :: 8 word) = signed_take_bit 7 (t + 1)"
      by (simp only: sint_sbintrunc') simp
    then show ?thesis
      by (simp only: WIFSIGNALED_def sint_signed_drop_bit_eq t_def WTERMSIG_def)
  qed
  show ?thesis
  proof (cases "t = 127")
    case True
    have "signed_take_bit 7 (128::int) = - 128" by (simp add: signed_take_bit_eq_take_bit_minus)
    then show ?thesis using True s by (simp add: t_def [symmetric] drop_bit_eq_div)
  next
    case False
    with r have "signed_take_bit 7 (t + 1) = t + 1"
      by (intro signed_take_bit_int_eq_self) simp_all
    moreover have "0 < (t + 1) div 2 \<longleftrightarrow> 1 \<le> t" by arith
    ultimately show ?thesis using s r False by (simp add: t_def [symmetric] drop_bit_eq_div)
  qed
qed

lemma exit_status_exited:
  assumes "0 \<le> code" "code \<le> 255"
  shows "exit_status_of (push_bit 8 code) = code"
proof -
  have "WTERMSIG (push_bit 8 code) = 0"
    by (simp add: WTERMSIG_def and_127 take_bit_push_bit)
  moreover have "WEXITSTATUS (push_bit 8 code) = code"
    using assms by (simp add: WEXITSTATUS_eq drop_bit_eq_div push_bit_eq_mult take_bit_int_eq_self)
  ultimately show ?thesis by (simp add: exit_status_of_def WIFEXITED_def)
qed

lemma exit_status_signaled:
  assumes "1 \<le> sig" "sig \<le> 126"
  shows "exit_status_of (sig + 128 * of_bool core) = 128 + sig"
proof -
  have "WTERMSIG (sig + 128 * of_bool core) = sig"
    using assms by (simp add: WTERMSIG_def and_127 take_bit_eq_mod)
  then show ?thesis using assms by (simp add: exit_status_of_def WIFEXITED_def WIFSIGNALED_iff)
qed

lemma exit_status_other:
  "exit_status_of (push_bit 8 sig + 127) = -1"
proof -
  have "push_bit 8 sig + 127 = 127 + (2 * sig) * (128::int)"
    by (simp add: push_bit_eq_mult)
  then have "(push_bit 8 sig + 127) mod 128 = (127::int)"
    by (simp only: mod_mult_self1) simp
  then have "WTERMSIG (push_bit 8 sig + 127) = 127"
    by (simp add: WTERMSIG_def and_127 take_bit_eq_mod)
  then show ?thesis by (simp add: exit_status_of_def WIFEXITED_def WIFSIGNALED_iff)
qed


subsection \<open>The polling loop\<close>

lemma pty_wait_infinite:
  "timeout_ms < 0 \<Longrightarrow> pty_wait w pid timeout_ms out_status s =
     (if wp_result (w 0) < 0
      then (Return (-1), out_status, s\<lparr>calls := calls s @ [Waitpid pid 0], errno := wp_errno (w 0)\<rparr>)
      else (Return 0, store out_status (exit_status_of (wp_status (w 0))),
            s\<lparr>calls := calls s @ [Waitpid pid 0]\<rparr>))"
  by (simp add: pty_wait_def waitpid_def os_call_def Let_def)

lemma polls_Suc: "polls pid (Suc k) = [Waitpid pid WNOHANG, Usleep 10000] @ polls pid k"
  by (simp add: polls_def)

lemma poll_loop_answer:
  assumes "\<forall>i<k. wp_result (w i) = 0" and "wp_result (w k) \<noteq> 0"
    and "elapsed + 10 * int k < timeout_ms" and "timeout_ms \<le> INT_MAX"
  shows "poll_loop w pid timeout_ms out_status elapsed s =
     (if wp_result (w k) < 0
      then (Return (-1), out_status,
            s\<lparr>calls := calls s @ polls pid k @ [Waitpid pid WNOHANG], errno := wp_errno (w k)\<rparr>)
      else (Return 0, store out_status (exit_status_of (wp_status (w k))),
            s\<lparr>calls := calls s @ polls pid k @ [Waitpid pid WNOHANG]\<rparr>))"
  using assms
proof (induction k arbitrary: w elapsed s)
  case 0
  then show ?case
    by (subst poll_loop.simps) (simp add: Let_def waitpid_def os_call_def polls_def)
next
  case (Suc k)
  have z: "wp_result (w 0) = 0" using Suc.prems(1) by simp
  have lt: "elapsed < timeout_ms" using Suc.prems(3) by simp
  have no: "\<not> elapsed + 10 > INT_MAX" using Suc.prems(3,4) by simp
  have ih: "poll_loop (\<lambda>i. w (Suc i)) pid timeout_ms out_status (elapsed + 10)
              (os_call (Usleep 10000) False 0 (waitpid (w 0) pid WNOHANG s)) =
     (if wp_result (w (Suc k)) < 0
      then (Return (-1), out_status,
            (os_call (Usleep 10000) False 0 (waitpid (w 0) pid WNOHANG s))
              \<lparr>calls := calls (os_call (Usleep 10000) False 0 (waitpid (w 0) pid WNOHANG s))
                 @ polls pid k @ [Waitpid pid WNOHANG], errno := wp_errno (w (Suc k))\<rparr>)
      else (Return 0, store out_status (exit_status_of (wp_status (w (Suc k)))),
            (os_call (Usleep 10000) False 0 (waitpid (w 0) pid WNOHANG s))
              \<lparr>calls := calls (os_call (Usleep 10000) False 0 (waitpid (w 0) pid WNOHANG s))
                 @ polls pid k @ [Waitpid pid WNOHANG]\<rparr>))"
    using Suc.prems by (intro Suc.IH) auto
  show ?case
    by (subst poll_loop.simps)
       (simp add: Let_def z lt no ih polls_Suc, simp add: waitpid_def os_call_def z)
qed

lemma poll_loop_timeout:
  assumes "\<forall>i<n. wp_result (w i) = 0"
    and "timeout_ms \<le> elapsed + 10 * int n"
    and "elapsed + 10 * int n < timeout_ms + 10"
    and "elapsed + 10 * int n \<le> INT_MAX"
  shows "poll_loop w pid timeout_ms out_status elapsed s =
     (Return 1, out_status, s\<lparr>calls := calls s @ polls pid n\<rparr>)"
  using assms
proof (induction n arbitrary: w elapsed s)
  case 0
  then show ?case by (subst poll_loop.simps) (simp add: polls_def)
next
  case (Suc n)
  have z: "wp_result (w 0) = 0" using Suc.prems(1) by simp
  have lt: "elapsed < timeout_ms" using Suc.prems(3) by simp
  have no: "\<not> elapsed + 10 > INT_MAX" using Suc.prems(4) by simp
  have ih: "poll_loop (\<lambda>i. w (Suc i)) pid timeout_ms out_status (elapsed + 10)
              (os_call (Usleep 10000) False 0 (waitpid (w 0) pid WNOHANG s)) =
     (Return 1, out_status,
      (os_call (Usleep 10000) False 0 (waitpid (w 0) pid WNOHANG s))
        \<lparr>calls := calls (os_call (Usleep 10000) False 0 (waitpid (w 0) pid WNOHANG s))
           @ polls pid n\<rparr>)"
  proof (rule Suc.IH)
    show "\<forall>i<n. wp_result (w (Suc i)) = 0" using Suc.prems(1) by simp
    show "timeout_ms \<le> elapsed + 10 + 10 * int n" using Suc.prems(2) by simp
    show "elapsed + 10 + 10 * int n < timeout_ms + 10" using Suc.prems(3) by simp
    show "elapsed + 10 + 10 * int n \<le> INT_MAX" using Suc.prems(4) by simp
  qed
  have st: "os_call (Usleep 10000) False 0 (waitpid (w 0) pid WNOHANG s)
              \<lparr>calls := calls (os_call (Usleep 10000) False 0 (waitpid (w 0) pid WNOHANG s))
                 @ polls pid n\<rparr>
            = s\<lparr>calls := calls s @ polls pid (Suc n)\<rparr>"
    by (simp add: waitpid_def os_call_def z polls_Suc)
  show ?case
    by (subst poll_loop.simps) (simp only: Let_def z lt no ih st if_True if_False, simp)
qed

lemma poll_loop_overflow:
  assumes "\<forall>i\<le>n. wp_result (w i) = 0"
    and "elapsed + 10 * int n < timeout_ms"
    and "INT_MAX < elapsed + 10 * int n + 10"
    and "elapsed + 10 * int n \<le> INT_MAX"
  shows "poll_loop w pid timeout_ms out_status elapsed s =
     (SignedOverflow, out_status, s\<lparr>calls := calls s @ polls pid (Suc n)\<rparr>)"
  using assms
proof (induction n arbitrary: w elapsed s)
  case 0
  then show ?case
    by (subst poll_loop.simps) (simp add: Let_def waitpid_def os_call_def polls_def)
next
  case (Suc n)
  have z: "wp_result (w 0) = 0" using Suc.prems(1) by simp
  have lt: "elapsed < timeout_ms" using Suc.prems(2) by simp
  have no: "\<not> elapsed + 10 > INT_MAX" using Suc.prems(4) by simp
  have ih: "poll_loop (\<lambda>i. w (Suc i)) pid timeout_ms out_status (elapsed + 10)
              (os_call (Usleep 10000) False 0 (waitpid (w 0) pid WNOHANG s)) =
     (SignedOverflow, out_status,
      (os_call (Usleep 10000) False 0 (waitpid (w 0) pid WNOHANG s))
        \<lparr>calls := calls (os_call (Usleep 10000) False 0 (waitpid (w 0) pid WNOHANG s))
           @ polls pid (Suc n)\<rparr>)"
  proof (rule Suc.IH)
    show "\<forall>i\<le>n. wp_result (w (Suc i)) = 0" using Suc.prems(1) by simp
    show "elapsed + 10 + 10 * int n < timeout_ms" using Suc.prems(2) by simp
    show "INT_MAX < elapsed + 10 + 10 * int n + 10" using Suc.prems(3) by simp
    show "elapsed + 10 + 10 * int n \<le> INT_MAX" using Suc.prems(4) by simp
  qed
  have st: "os_call (Usleep 10000) False 0 (waitpid (w 0) pid WNOHANG s)
              \<lparr>calls := calls (os_call (Usleep 10000) False 0 (waitpid (w 0) pid WNOHANG s))
                 @ polls pid (Suc n)\<rparr>
            = s\<lparr>calls := calls s @ polls pid (Suc (Suc n))\<rparr>"
    by (simp add: waitpid_def os_call_def z polls_Suc)
  show ?case
    by (subst poll_loop.simps) (simp only: Let_def z lt no ih st if_True if_False, simp)
qed

lemma poll_loop_exited:
  "poll_loop w pid timeout_ms out_status elapsed s = (Return 0, out', s') \<Longrightarrow>
   \<exists>k. 0 < wp_result (w k) \<and> (\<forall>i<k. wp_result (w i) = 0) \<and>
       out' = store out_status (exit_status_of (wp_status (w k)))"
proof (induction w pid timeout_ms out_status elapsed s rule: poll_loop.induct)
  case (1 w pid timeout_ms out_status elapsed s)
  from "1.prems" have lt: "elapsed < timeout_ms"
    by (subst (asm) poll_loop.simps) (simp split: if_splits)
  from "1.prems" lt have nn: "\<not> wp_result (w 0) < 0"
    by (subst (asm) poll_loop.simps) (simp add: Let_def split: if_splits)
  show ?case
  proof (cases "wp_result (w 0) > 0")
    case True
    with "1.prems" lt have "out' = store out_status (exit_status_of (wp_status (w 0)))"
      by (subst (asm) poll_loop.simps) (simp add: Let_def)
    with True show ?thesis by (intro exI [of _ 0]) simp
  next
    case False
    with nn have z: "wp_result (w 0) = 0" by simp
    from "1.prems" lt z have no: "\<not> elapsed + 10 > INT_MAX"
      by (subst (asm) poll_loop.simps) (simp add: Let_def split: if_splits)
    from "1.prems" lt z no
    have rec: "poll_loop (\<lambda>k. w (Suc k)) pid timeout_ms out_status (elapsed + 10)
                 (os_call (Usleep 10000) False 0 (waitpid (w 0) pid WNOHANG s)) = (Return 0, out', s')"
      by (subst (asm) poll_loop.simps) (simp add: Let_def)
    have "\<exists>k. 0 < wp_result (w (Suc k)) \<and> (\<forall>i<k. wp_result (w (Suc i)) = 0) \<and>
       out' = store out_status (exit_status_of (wp_status (w (Suc k))))"
      using lt nn False no rec by (intro "1.IH" [OF lt refl refl refl]) simp_all
    then obtain k where k: "0 < wp_result (w (Suc k))" "\<forall>i<k. wp_result (w (Suc i)) = 0"
      "out' = store out_status (exit_status_of (wp_status (w (Suc k))))" by blast
    have "\<forall>i<Suc k. wp_result (w i) = 0"
    proof (intro allI impI)
      fix i assume "i < Suc k"
      then show "wp_result (w i) = 0" using z k(2) by (cases i) simp_all
    qed
    with k show ?thesis by (intro exI [of _ "Suc k"]) simp
  qed
qed

lemma pty_wait_bounded_answer:
  assumes "\<forall>i<k. wp_result (w i) = 0" and "wp_result (w k) \<noteq> 0"
    and "10 * int k < timeout_ms" and "timeout_ms \<le> INT_MAX"
  shows "pty_wait w pid timeout_ms out_status s =
     (if wp_result (w k) < 0
      then (Return (-1), out_status,
            s\<lparr>calls := calls s @ polls pid k @ [Waitpid pid WNOHANG], errno := wp_errno (w k)\<rparr>)
      else (Return 0, store out_status (exit_status_of (wp_status (w k))),
            s\<lparr>calls := calls s @ polls pid k @ [Waitpid pid WNOHANG]\<rparr>))"
proof -
  have "\<not> timeout_ms < 0" using assms(3) by simp
  then show ?thesis
    using poll_loop_answer [of k w 0 timeout_ms pid out_status s] assms
    by (simp add: pty_wait_def)
qed

lemma pty_wait_bounded_timeout:
  assumes "0 \<le> timeout_ms" and "\<forall>i<n. wp_result (w i) = 0"
    and "timeout_ms \<le> 10 * int n" and "10 * int n < timeout_ms + 10"
    and "timeout_ms \<le> 2147483640"
  shows "pty_wait w pid timeout_ms out_status s =
     (Return 1, out_status, s\<lparr>calls := calls s @ polls pid n\<rparr>)"
proof -
  have "10 * int n \<le> INT_MAX" using assms(4,5) unfolding INT_MAX_def by arith
  then show ?thesis
    using poll_loop_timeout [of n w timeout_ms 0 pid out_status s] assms
    by (simp add: pty_wait_def)
qed

subsection \<open>The child and the caller of \<open>pty_spawn\<close>\<close>

lemma sigmask_pthread_sigmask: "sigmask (pthread_sigmask os m s) = m"
  and calls_pthread_sigmask: "calls (pthread_sigmask os m s) = calls s @ [PthreadSigmask m]"
  by (simp_all add: pthread_sigmask_def)

lemma sigmask_set_ctty: "sigmask (set_ctty pf os fd s) = sigmask s"
  by (simp add: set_ctty_def Let_def sigmask_sys)

lemma sigmask_exit_child: "sigmask (snd (exit_child c s)) = sigmask s"
  and calls_exit_child: "calls (snd (exit_child c s)) = calls s @ [Exit c]"
  and fst_exit_child: "fst (exit_child c s) = ChildExit c"
  by (simp_all add: exit_child_def)

lemma sigmask_child_exec:
  "sigmask (snd (child_exec os environ path argv envp working_dir fd s)) = sigmask s"
  by (simp add: child_exec_def Let_def sigmask_sys sigmask_os_call sigmask_exit_child
      split: option.splits)

lemma fst_child_exec:
  "fst (child_exec os environ path argv envp working_dir fd s) =
     (case execve_err os of
        None \<Rightarrow> ChildExec path argv (case envp of Some e \<Rightarrow> e | None \<Rightarrow> environ)
      | Some e \<Rightarrow> ChildExit 127)"
  by (simp add: child_exec_def Let_def fst_exit_child split: option.splits)

lemma sigmask_child:
  "sigmask (snd (child pf os environ path argv envp slave_name working_dir old_signals s)) =
     old_signals"
  by (simp add: child_def Let_def sigmask_exit_child sigmask_sys sigmask_set_ctty
      sigmask_child_exec reset_handlers_sigmask sigmask_pthread_sigmask)

lemma fst_child:
  "fst (child pf os environ path argv envp slave_name working_dir old_signals s) =
     (if ret (setsid_ans os) < 0 \<or> ret (open_ans os) < 0
         \<or> ret (dup2_ans os STDIN_FILENO) < 0 \<or> ret (dup2_ans os STDOUT_FILENO) < 0
         \<or> ret (dup2_ans os STDERR_FILENO) < 0 \<or> execve_err os \<noteq> None
      then ChildExit 127
      else ChildExec path argv (case envp of Some e \<Rightarrow> e | None \<Rightarrow> environ))"
  by (auto simp: child_def Let_def fst_exit_child fst_child_exec split: option.splits)

lemma extends_refl: "extends s s"
  by (simp add: extends_def)

lemma extends_append: "extends s t \<Longrightarrow> extends s (t\<lparr>calls := calls t @ r\<rparr>)"
  by (auto simp: extends_def)

lemma extends_os_call: "extends s t \<Longrightarrow> extends s (os_call c f e t)"
  by (auto simp: extends_def calls_os_call)

lemma extends_sys: "extends s t \<Longrightarrow> extends s (sys c a t)"
  by (auto simp: extends_def calls_sys)

lemma extends_exit_child: "extends s t \<Longrightarrow> extends s (snd (exit_child c t))"
  by (auto simp: extends_def calls_exit_child)

lemma extends_set_ctty: "extends s t \<Longrightarrow> extends s (set_ctty pf os fd t)"
  by (simp add: set_ctty_def Let_def extends_sys)

lemma extends_child_exec:
  "extends s t \<Longrightarrow> extends s (snd (child_exec os environ path argv envp working_dir fd t))"
  by (simp add: child_exec_def Let_def extends_sys extends_os_call extends_exit_child
      extends_append split: option.splits)

lemma calls_child:
  "\<exists>r. calls (snd (child pf os environ path argv envp slave_name working_dir old_signals s)) =
     calls s @ [PthreadSigmask old_signals] @ map Sigaction (resettable pf 1) @ [Setsid] @ r"
proof -
  define s3 where
    "s3 = sys Setsid (setsid_ans os) (reset_handlers pf os 1 (pthread_sigmask os old_signals s))"
  have c3: "calls s3 =
      calls s @ [PthreadSigmask old_signals] @ map Sigaction (resettable pf 1) @ [Setsid]"
    by (simp add: s3_def calls_sys reset_handlers_calls calls_pthread_sigmask)
  have "extends s3 (snd (child pf os environ path argv envp slave_name working_dir old_signals s))"
    unfolding child_def Let_def s3_def [symmetric]
    by (simp add: extends_refl extends_sys extends_exit_child extends_set_ctty extends_child_exec)
  then show ?thesis using c3 by (auto simp: extends_def)
qed

lemma pty_spawn_valid:
  "pty_spawn pf os environ (Some path) (Some argv) envp (Some slave_name) working_dir (Some v) s =
     (if ret (fork_ans os) = - 1 then
        (Returns (- 1), Some v,
         s\<lparr>sigmask := sigmask s, errno := err (fork_ans os),
           calls := calls s @ [PthreadSigmask (sigfillset pf), Fork, PthreadSigmask (sigmask s)]\<rparr>)
      else if ret (fork_ans os) = 0 then
        (fst (child pf os environ path argv envp slave_name working_dir (sigmask s)
               (sys Fork (fork_ans os) (pthread_sigmask os (sigfillset pf) s))),
         Some v,
         snd (child pf os environ path argv envp slave_name working_dir (sigmask s)
               (sys Fork (fork_ans os) (pthread_sigmask os (sigfillset pf) s))))
      else
        (Returns 0, Some (ret (fork_ans os)),
         s\<lparr>sigmask := sigmask s,
           errno := (case sigmask_errno os of
                       None \<Rightarrow> if ret (fork_ans os) < 0 then err (fork_ans os) else errno s
                     | Some e \<Rightarrow> e),
           calls := calls s @ [PthreadSigmask (sigfillset pf), Fork, PthreadSigmask (sigmask s)]\<rparr>))"
  by (auto simp: pty_spawn_def Let_def pthread_sigmask_def sys_def os_call_def store_def
      split: prod.splits option.splits)

lemma fst_pty_spawn:
  "fst (pty_spawn pf os environ path argv envp slave_name working_dir out_pid s) =
     (case (path, argv, slave_name, out_pid) of
        (Some p, Some a, Some n, Some v) \<Rightarrow>
          if ret (fork_ans os) = - 1 then Returns (- 1)
          else if ret (fork_ans os) = 0 then
            (if ret (setsid_ans os) < 0 \<or> ret (open_ans os) < 0
                \<or> ret (dup2_ans os STDIN_FILENO) < 0 \<or> ret (dup2_ans os STDOUT_FILENO) < 0
                \<or> ret (dup2_ans os STDERR_FILENO) < 0 \<or> execve_err os \<noteq> None
             then ChildExit 127
             else ChildExec p a (case envp of Some e \<Rightarrow> e | None \<Rightarrow> environ))
          else Returns 0
      | _ \<Rightarrow> Returns (- 1))"
proof (cases "\<exists>p a n v. path = Some p \<and> argv = Some a \<and> slave_name = Some n \<and> out_pid = Some v")
  case True
  then obtain p a n v where "path = Some p" "argv = Some a" "slave_name = Some n" "out_pid = Some v"
    by blast
  then show ?thesis by (simp add: pty_spawn_valid fst_child)
next
  case False
  then show ?thesis by (auto simp: pty_spawn_def split: option.splits)
qed

lemma resettable_linux_1: "resettable linux 1 = 1 # 2 # resettable linux 3"
  by (simp add: resettable_def linux_def upto_rec1)

lemma linux_has_TIOCSCTTY: "has_TIOCSCTTY linux"
  by (simp add: linux_def)

lemma set_resettable:
  "set (resettable pf sig) = {n. sig \<le> n \<and> n < NSIG pf \<and> n \<noteq> SIGKILL pf \<and> n \<noteq> SIGSTOP pf}"
  by (auto simp: resettable_def)

lemma calls_pty_spawn_child:
  assumes "ret (fork_ans os) = 0"
  shows "\<exists>r. calls (snd (snd (pty_spawn pf os environ (Some p) (Some a) envp (Some n) working_dir
                 (Some v) s))) =
     calls s @ [PthreadSigmask (sigfillset pf), Fork, PthreadSigmask (sigmask s)]
       @ map Sigaction (resettable pf 1) @ [Setsid] @ r"
proof -
  obtain r where "calls (snd (child pf os environ p a envp n working_dir (sigmask s)
               (sys Fork (fork_ans os) (pthread_sigmask os (sigfillset pf) s)))) =
     calls (sys Fork (fork_ans os) (pthread_sigmask os (sigfillset pf) s))
       @ [PthreadSigmask (sigmask s)] @ map Sigaction (resettable pf 1) @ [Setsid] @ r"
    using calls_child by blast
  then show ?thesis
    using assms by (simp add: pty_spawn_valid calls_sys calls_pthread_sigmask)
qed

lemma sigmask_pty_spawn:
  "sigmask (snd (snd (pty_spawn pf os environ path argv envp slave_name working_dir out_pid s))) =
     sigmask s"
proof (cases "\<exists>p a n v. path = Some p \<and> argv = Some a \<and> slave_name = Some n \<and> out_pid = Some v")
  case True
  then obtain p a n v where "path = Some p" "argv = Some a" "slave_name = Some n" "out_pid = Some v"
    by blast
  then show ?thesis by (simp add: pty_spawn_valid sigmask_child)
next
  case False
  then show ?thesis by (auto simp: pty_spawn_def split: option.splits)
qed

lemma dispositions_after_iff:
  "dispositions_after os h cs sig \<longleftrightarrow>
     h sig \<and> \<not> (Sigaction sig \<in> set cs \<and> \<not> ret (sigaction_ans os sig) < 0)"
  by (induction os h cs rule: dispositions_after.induct) auto

lemma calls_in_child_linux:
  "calls (snd (snd (pty_spawn linux in_child [] (Some ''/bin/sh'') (Some [''sh'']) None
        (Some ''/dev/pts/7'') None (Some 0) proc0))) =
     [PthreadSigmask (sigfillset linux), Fork, PthreadSigmask []]
       @ map Sigaction (resettable linux 1)
       @ [Setsid, OpenRdwr ''/dev/pts/7'', IoctlTIOCSCTTY 3 0,
          Dup2 3 0, Dup2 3 1, Dup2 3 2, Close 3, Execve ''/bin/sh'' [''sh''] []]"
  by (simp add: pty_spawn_valid in_child_def
      STDIN_FILENO_def STDOUT_FILENO_def STDERR_FILENO_def child_def Let_def
      reset_handlers_calls calls_sys calls_pthread_sigmask set_ctty_def
      child_exec_def proc0_def linux_has_TIOCSCTTY)

section \<open>Theorems\<close>

text \<open>
  C1, as the code has it. \<open>pty_spawn\<close> returns \<open>-1\<close> exactly when an argument is
  \<^verbatim>\<open>NULL\<close> or \<open>fork\<close> returns \<open>-1\<close>. In the child, a failure of \<open>setsid\<close>, of the \<open>open\<close> of
  the slave, of one of the three \<open>dup2\<close> or of \<open>execve\<close> ends the process with
  \<^verbatim>\<open>_exit(127)\<close> and nothing is returned; otherwise the image is replaced. The answers to
  \<open>sigaction\<close>, to both \<^verbatim>\<open>TIOCSCTTY\<close> requests, to \<open>close\<close> and to \<open>chdir\<close> have no
  influence on the outcome: the failure of any of them is not fatal.
\<close>

theorem pty_spawn_error_reporting:
  "(fst (pty_spawn pf os environ path argv envp slave_name working_dir out_pid s) = Returns (- 1)
      \<longleftrightarrow> path = None \<or> argv = None \<or> slave_name = None \<or> out_pid = None
          \<or> ret (fork_ans os) = - 1)
   \<and> (ret (fork_ans os) = 0 \<longrightarrow>
        fst (pty_spawn pf os environ (Some p) (Some a) envp (Some n) working_dir (Some v) s) =
          (if ret (setsid_ans os) < 0 \<or> ret (open_ans os) < 0
              \<or> ret (dup2_ans os STDIN_FILENO) < 0 \<or> ret (dup2_ans os STDOUT_FILENO) < 0
              \<or> ret (dup2_ans os STDERR_FILENO) < 0 \<or> execve_err os \<noteq> None
           then ChildExit 127
           else ChildExec p a (case envp of Some e \<Rightarrow> e | None \<Rightarrow> environ)))
   \<and> fst (pty_spawn pf (os\<lparr>sigaction_ans := sa, ioctl_ans := io, close_ans := cl, chdir_ans := cd\<rparr>)
            environ path argv envp slave_name working_dir out_pid s) =
       fst (pty_spawn pf os environ path argv envp slave_name working_dir out_pid s)"
  by (auto simp: fst_pty_spawn split: option.splits)

theorem pty_spawn_error_reporting_witness:
  "fst (pty_spawn linux (in_child\<lparr>execve_err := Some 2\<rparr>) [] (Some ''/bin/sh'') (Some [''sh'']) None
          (Some ''/dev/pts/7'') None (Some 0) proc0) = ChildExit 127
   \<and> fst (pty_spawn linux in_child [''TERM=xterm''] (Some ''/bin/sh'') (Some [''sh'']) None
          (Some ''/dev/pts/7'') None (Some 0) proc0) = ChildExec ''/bin/sh'' [''sh''] [''TERM=xterm'']"
  using pty_spawn_error_reporting [where os = "in_child\<lparr>execve_err := Some 2\<rparr>" and pf = linux
      and environ = "[]" and p = "''/bin/sh''" and a = "[''sh'']" and envp = None
      and n = "''/dev/pts/7''" and working_dir = None and v = 0 and s = proc0]
    pty_spawn_error_reporting [where os = in_child and pf = linux
      and environ = "[''TERM=xterm'']" and p = "''/bin/sh''" and a = "[''sh'']" and envp = None
      and n = "''/dev/pts/7''" and working_dir = None and v = 0 and s = proc0]
  by (simp add: in_child_def STDIN_FILENO_def STDOUT_FILENO_def STDERR_FILENO_def)

text \<open>
  C1 as stated names the forced \<^verbatim>\<open>TIOCSCTTY\<close> request and \<open>chdir\<close> as the only steps of
  the child that may fail without ending it. On Linux, with \<open>sigaction\<close> failing for the
  signals 32 and 33, the first \<^verbatim>\<open>TIOCSCTTY\<close> request failing (the forced one then
  succeeds) and the \<open>close\<close> of the spare descriptor failing, no \<open>chdir\<close> requested, the
  child goes on to \<open>execve\<close>.
\<close>

theorem nonfatal_steps_counterexample:
  "ret (sigaction_ans ignored_failures 32) < 0
   \<and> ret (ioctl_ans ignored_failures 0) < 0
   \<and> ret (close_ans ignored_failures) < 0
   \<and> 32 \<in> set (resettable linux 1)
   \<and> fst (pty_spawn linux ignored_failures [] (Some ''/bin/sh'') (Some [''sh'']) None
        (Some ''/dev/pts/7'') None (Some 0) proc0) = ChildExec ''/bin/sh'' [''sh''] []
   \<and> calls (snd (snd (pty_spawn linux ignored_failures [] (Some ''/bin/sh'') (Some [''sh'']) None
        (Some ''/dev/pts/7'') None (Some 0) proc0))) =
         [PthreadSigmask (sigfillset linux), Fork, PthreadSigmask []]
           @ map Sigaction (resettable linux 1)
           @ [Setsid, OpenRdwr ''/dev/pts/7'', IoctlTIOCSCTTY 3 0, IoctlTIOCSCTTY 3 1,
              Dup2 3 0, Dup2 3 1, Dup2 3 2, Close 3, Execve ''/bin/sh'' [''sh''] []]"
  by (simp add: fst_pty_spawn pty_spawn_valid ignored_failures_def in_child_def
      STDIN_FILENO_def STDOUT_FILENO_def STDERR_FILENO_def child_def Let_def
      reset_handlers_calls calls_sys calls_pthread_sigmask set_ctty_def
      child_exec_def proc0_def linux_has_TIOCSCTTY set_resettable)
     (simp add: linux_def)

text \<open>
  C2. The handlers are to be reset before the child re-enables any signal. The code does
  it the other way round. Evaluated on Linux for a caller that has a handler installed
  for \<^verbatim>\<open>SIGTERM\<close> and an empty signal mask: the first call of the child after \<open>fork\<close>
  installs the empty mask, and the first resets follow it; after the first three calls,
  that is when \<^verbatim>\<open>SIGTERM\<close> is deliverable again, its disposition is still the handler of
  the caller; only the later \<open>sigaction\<close> makes it the default.
\<close>

theorem child_unmasks_before_handler_reset:
  "take 5 (calls (snd (snd (pty_spawn linux in_child [] (Some ''/bin/sh'') (Some [''sh'']) None
              (Some ''/dev/pts/7'') None (Some 0) proc0)))) =
     [PthreadSigmask (sigfillset linux), Fork, PthreadSigmask [], Sigaction 1, Sigaction 2]
   \<and> dispositions_after in_child handles_sigterm
        (take 3 (calls (snd (snd (pty_spawn linux in_child [] (Some ''/bin/sh'') (Some [''sh''])
              None (Some ''/dev/pts/7'') None (Some 0) proc0))))) 15
   \<and> 15 \<notin> set (sigmask proc0)
   \<and> \<not> dispositions_after in_child handles_sigterm
        (calls (snd (snd (pty_spawn linux in_child [] (Some ''/bin/sh'') (Some [''sh''])
              None (Some ''/dev/pts/7'') None (Some 0) proc0)))) 15"
proof -
  let ?cs = "calls (snd (snd (pty_spawn linux in_child [] (Some ''/bin/sh'') (Some [''sh'']) None
              (Some ''/dev/pts/7'') None (Some 0) proc0)))"
  have c: "?cs = [PthreadSigmask (sigfillset linux), Fork, PthreadSigmask []]
       @ map Sigaction (resettable linux 1)
       @ [Setsid, OpenRdwr ''/dev/pts/7'', IoctlTIOCSCTTY 3 0,
          Dup2 3 0, Dup2 3 1, Dup2 3 2, Close 3, Execve ''/bin/sh'' [''sh''] []]"
    by (rule calls_in_child_linux)
  have m: "15 \<in> set (resettable linux 1)" by (simp add: set_resettable linux_def)
  have ok: "\<not> ret (sigaction_ans in_child 15) < 0" by (simp add: in_child_def)
  have t5: "take 5 ?cs =
      [PthreadSigmask (sigfillset linux), Fork, PthreadSigmask [], Sigaction 1, Sigaction 2]"
    unfolding c by (simp add: resettable_linux_1)
  have t3: "take 3 ?cs = [PthreadSigmask (sigfillset linux), Fork, PthreadSigmask []]"
    unfolding c by simp
  have d1: "dispositions_after in_child handles_sigterm (take 3 ?cs) 15"
    unfolding t3 by (simp add: handles_sigterm_def)
  have n: "15 \<notin> set (sigmask proc0)" by (simp add: proc0_def)
  have d2: "\<not> dispositions_after in_child handles_sigterm ?cs 15"
    unfolding c using m ok by (simp add: dispositions_after_iff)
  show ?thesis using t5 d1 n d2 by blast
qed

text \<open>
  C3. The bounded mode polls with \<^verbatim>\<open>WNOHANG\<close>, sleeps 10 ms and adds 10 to \<open>elapsed\<close>;
  the lemmas \<open>pty_wait_bounded_answer\<close> and \<open>pty_wait_bounded_timeout\<close> give its result
  for every timeout up to 2147483640. For the seven timeouts above, 2147483641 to
  \<open>INT_MAX\<close>, a child that keeps running is not reported as a timeout when the bound is
  reached: after 214748364 rounds \<open>elapsed\<close> is 2147483640, still below the bound, so the
  loop polls and sleeps once more, and its \<^verbatim>\<open>elapsed += 10\<close> overflows the \<open>int\<close>. The
  theorem evaluates \<open>pty_wait\<close> at \<open>timeout_ms = INT_MAX\<close>.
\<close>

theorem pty_wait_timeout_overflow: "pty_wait never_exits pid 2147483647 out_status s =
     (SignedOverflow, out_status, s\<lparr>calls := calls s @ polls pid 214748365\<rparr>)"
proof -
  have "poll_loop never_exits pid 2147483647 out_status 0 s =
     (SignedOverflow, out_status, s\<lparr>calls := calls s @ polls pid (Suc 214748364)\<rparr>)"
    by (rule poll_loop_overflow) (simp_all add: never_exits_def still_running_def INT_MAX_def)
  then show ?thesis by (simp add: pty_wait_def)
qed

text \<open>
  C4. Infinite mode (\<open>timeout_ms < 0\<close>) issues exactly one \<open>waitpid\<close> without
  \<^verbatim>\<open>WNOHANG\<close>; when it fails \<open>pty_wait\<close> returns \<open>-1\<close> with the cause in \<open>errno\<close> and
  the status cell untouched, otherwise it returns 0 and stores the translation of the raw
  status. In bounded mode, when the polls before the \<open>k\<close>-th find the child running and
  the \<open>k\<close>-th, issued before the bound is reached, observes its termination, \<open>pty_wait\<close>
  returns 0 at once and stores the translation of the raw status of that poll; and every
  return of 0 stores the translation of the raw status of the first poll that did not find
  the child running. The translation is the exit code, which lies in 0..255, for a normal
  exit, 128 plus the signal number for a death by signal, and \<open>-1\<close> for any other raw
  status. On the raw statuses the kernel produces: an exit with \<open>code\<close> gives \<open>code\<close>, a
  death by signal \<open>sig\<close> (with or without a core dump) gives \<open>128 + sig\<close>, a stopped child
  gives \<open>-1\<close>.
\<close>

theorem pty_wait_status_translation:
  "(timeout_ms < 0 \<longrightarrow>
      pty_wait w pid timeout_ms out_status s =
        (if wp_result (w 0) < 0
         then (Return (-1), out_status,
               s\<lparr>calls := calls s @ [Waitpid pid 0], errno := wp_errno (w 0)\<rparr>)
         else (Return 0, store out_status (exit_status_of (wp_status (w 0))),
               s\<lparr>calls := calls s @ [Waitpid pid 0]\<rparr>)))
   \<and> ((\<forall>i<k. wp_result (w i) = 0) \<and> 0 < wp_result (w k) \<and> 10 * int k < timeout_ms
        \<and> timeout_ms \<le> INT_MAX \<longrightarrow>
      pty_wait w pid timeout_ms out_status s =
        (Return 0, store out_status (exit_status_of (wp_status (w k))),
         s\<lparr>calls := calls s @ polls pid k @ [Waitpid pid WNOHANG]\<rparr>))
   \<and> (0 \<le> timeout_ms \<and> pty_wait w pid timeout_ms out_status s = (Return 0, out', s') \<longrightarrow>
        (\<exists>k. 0 < wp_result (w k) \<and> (\<forall>i<k. wp_result (w i) = 0) \<and>
             out' = store out_status (exit_status_of (wp_status (w k)))))
   \<and> exit_status_of st =
        (if WIFEXITED st then WEXITSTATUS st
         else if WIFSIGNALED st then 128 + WTERMSIG st else - 1)
   \<and> 0 \<le> WEXITSTATUS st \<and> WEXITSTATUS st \<le> 255
   \<and> (0 \<le> code \<and> code \<le> 255 \<longrightarrow> exit_status_of (push_bit 8 code) = code)
   \<and> (1 \<le> sig \<and> sig \<le> 126 \<longrightarrow> exit_status_of (sig + 128 * of_bool core) = 128 + sig)
   \<and> exit_status_of (push_bit 8 sig + 127) = - 1"
proof (intro conjI impI)
  assume "timeout_ms < 0"
  then show "pty_wait w pid timeout_ms out_status s =
        (if wp_result (w 0) < 0
         then (Return (-1), out_status,
               s\<lparr>calls := calls s @ [Waitpid pid 0], errno := wp_errno (w 0)\<rparr>)
         else (Return 0, store out_status (exit_status_of (wp_status (w 0))),
               s\<lparr>calls := calls s @ [Waitpid pid 0]\<rparr>))"
    by (rule pty_wait_infinite)
next
  assume a: "(\<forall>i<k. wp_result (w i) = 0) \<and> 0 < wp_result (w k) \<and> 10 * int k < timeout_ms
        \<and> timeout_ms \<le> INT_MAX"
  then have "\<forall>i<k. wp_result (w i) = 0" and "wp_result (w k) \<noteq> 0"
    and "10 * int k < timeout_ms" and "timeout_ms \<le> INT_MAX" and "\<not> wp_result (w k) < 0"
    by simp_all
  then show "pty_wait w pid timeout_ms out_status s =
        (Return 0, store out_status (exit_status_of (wp_status (w k))),
         s\<lparr>calls := calls s @ polls pid k @ [Waitpid pid WNOHANG]\<rparr>)"
    using pty_wait_bounded_answer [of k w timeout_ms pid out_status s] by simp
next
  assume "0 \<le> timeout_ms \<and> pty_wait w pid timeout_ms out_status s = (Return 0, out', s')"
  then have "\<not> timeout_ms < 0"
    and "pty_wait w pid timeout_ms out_status s = (Return 0, out', s')" by simp_all
  then have "poll_loop w pid timeout_ms out_status 0 s = (Return 0, out', s')"
    by (simp add: pty_wait_def)
  then show "\<exists>k. 0 < wp_result (w k) \<and> (\<forall>i<k. wp_result (w i) = 0) \<and>
             out' = store out_status (exit_status_of (wp_status (w k)))"
    by (rule poll_loop_exited)
next
  show "exit_status_of st =
        (if WIFEXITED st then WEXITSTATUS st
         else if WIFSIGNALED st then 128 + WTERMSIG st else - 1)"
    by (simp add: exit_status_of_def)
next
  show "0 \<le> WEXITSTATUS st" "WEXITSTATUS st \<le> 255"
    using WEXITSTATUS_range [of st] by simp_all
next
  assume "0 \<le> code \<and> code \<le> 255"
  then show "exit_status_of (push_bit 8 code) = code"
    by (simp add: exit_status_exited)
next
  assume "1 \<le> sig \<and> sig \<le> 126"
  then show "exit_status_of (sig + 128 * of_bool core) = 128 + sig"
    by (simp add: exit_status_signaled)
next
  show "exit_status_of (push_bit 8 sig + 127) = - 1"
    by (rule exit_status_other)
qed

theorem pty_wait_status_translation_witness:
  "pty_wait (exits_with_3 0) 77 (- 1) (Some 0) proc0 =
     (Return 0, Some 3, \<lparr>sigmask = [], errno = 0, calls = [Waitpid 77 0]\<rparr>)
   \<and> pty_wait (exits_with_3 1) 77 20 (Some 0) proc0 =
     (Return 0, Some 3,
      \<lparr>sigmask = [], errno = 0, calls = [Waitpid 77 1, Usleep 10000, Waitpid 77 1]\<rparr>)
   \<and> (\<exists>k. 0 < wp_result (exits_with_3 1 k) \<and> (\<forall>i<k. wp_result (exits_with_3 1 i) = 0) \<and>
          Some (3::int) = store (Some 0) (exit_status_of (wp_status (exits_with_3 1 k))))
   \<and> exit_status_of (push_bit 8 3) = 3
   \<and> exit_status_of (9 + 128 * of_bool True) = 128 + 9"
proof -
  note th = pty_wait_status_translation [where pid = 77 and out_status = "Some 0" and s = proc0
      and out' = "Some 3" and k = 1
      and s' = "\<lparr>sigmask = [], errno = 0, calls = [Waitpid 77 1, Usleep 10000, Waitpid 77 1]\<rparr>"
      and st = 0 and code = 3 and sig = 9 and core = True]
  have c: "exit_status_of (push_bit 8 3) = 3" "exit_status_of (9 + 128 * of_bool True) = 128 + 9"
    using th [of 20 "exits_with_3 1"] by simp_all
  have x: "exit_status_of 768 = 3" using c(1) by (simp add: push_bit_eq_mult)
  have e: "pty_wait (exits_with_3 1) 77 20 (Some 0) proc0 =
     (Return 0, Some 3,
      \<lparr>sigmask = [], errno = 0, calls = [Waitpid 77 1, Usleep 10000, Waitpid 77 1]\<rparr>)"
    using th [of 20 "exits_with_3 1"]
    by (simp add: exits_with_3_def still_running_def proc0_def store_def INT_MAX_def polls_def
        WNOHANG_def x)
  have a: "pty_wait (exits_with_3 0) 77 (- 1) (Some 0) proc0 =
     (Return 0, Some 3, \<lparr>sigmask = [], errno = 0, calls = [Waitpid 77 0]\<rparr>)"
    using th [of "- 1" "exits_with_3 0"]
    by (simp add: exits_with_3_def still_running_def proc0_def store_def x)
  have b: "\<exists>k. 0 < wp_result (exits_with_3 1 k) \<and> (\<forall>i<k. wp_result (exits_with_3 1 i) = 0) \<and>
          Some (3::int) = store (Some 0) (exit_status_of (wp_status (exits_with_3 1 k)))"
    using th [of 20 "exits_with_3 1"] e by simp
  show ?thesis using a b c e by simp
qed

text \<open>
  C5. When the master was opened and \<open>grantpt\<close>, \<open>unlockpt\<close> or \<open>ptsname\<close> fails,
  \<open>pty_open\<close> returns \<open>-1\<close>; its last call is the \<open>close\<close> of the master; \<open>errno\<close> holds
  the cause of the call that failed, whatever \<open>close\<close> answers; both output cells are as
  they were.
\<close>

theorem pty_open_failure_cleanup:
  assumes "out_master_fd \<noteq> None" and "out_slave_name \<noteq> None" and "256 \<le> slave_name_len"
    and "0 \<le> ret (posix_openpt_ans os)"
    and "ret (grantpt_ans os) < 0 \<or> ret (unlockpt_ans os) < 0 \<or> ptsname_ans os = None"
  shows "pty_open os out_master_fd out_slave_name slave_name_len width height s =
     (- 1, out_master_fd, out_slave_name,
      s\<lparr>calls := calls s @
           (if ret (grantpt_ans os) < 0 then [PosixOpenpt, Grantpt (ret (posix_openpt_ans os))]
            else if ret (unlockpt_ans os) < 0
            then [PosixOpenpt, Grantpt (ret (posix_openpt_ans os)), Unlockpt (ret (posix_openpt_ans os))]
            else [PosixOpenpt, Grantpt (ret (posix_openpt_ans os)), Unlockpt (ret (posix_openpt_ans os)),
                  Ptsname (ret (posix_openpt_ans os))])
           @ [Close (ret (posix_openpt_ans os))],
         errno :=
           (if ret (grantpt_ans os) < 0 then err (grantpt_ans os)
            else if ret (unlockpt_ans os) < 0 then err (unlockpt_ans os)
            else ptsname_errno os)\<rparr>)"
  using assms
  by (auto simp: pty_open_def close_and_fail_def sys_def os_call_def Let_def split: option.splits)

theorem pty_open_failure_cleanup_witness:
  "pty_open unlock_fails (Some 0) (Some []) 256 80 24 proc0 =
     (- 1, Some 0, Some [],
      \<lparr>sigmask = [], errno = 9, calls = [PosixOpenpt, Grantpt 5, Unlockpt 5, Close 5]\<rparr>)"
  using pty_open_failure_cleanup [of "Some 0" "Some []" 256 unlock_fails 80 24 proc0]
  by (simp add: unlock_fails_def opens_fine_def proc0_def)

text \<open>
  C6. Whatever the arguments and the operating system's answers, \<open>pty_spawn\<close> leaves the
  process with the signal mask it was entered with. With valid arguments its calls start
  with the blocking of all signals, \<open>fork\<close>, and the restore of the saved mask, and in the
  caller nothing follows. When \<open>fork\<close> fails, \<open>errno\<close> holds the cause of \<open>fork\<close> after the
  restore, also when \<open>pthread_sigmask\<close> has written to \<open>errno\<close>; in the caller of a
  successful \<open>fork\<close> the pid is stored and 0 returned.
\<close>

theorem pty_spawn_restores_sigmask:
  "sigmask (snd (snd (pty_spawn pf os environ path argv envp slave_name working_dir out_pid s))) =
     sigmask s
   \<and> (\<exists>r. calls (snd (snd (pty_spawn pf os environ (Some p) (Some a) envp (Some n) working_dir
                 (Some v) s))) =
            calls s @ [PthreadSigmask (sigfillset pf), Fork, PthreadSigmask (sigmask s)] @ r
          \<and> (ret (fork_ans os) = 0 \<or> r = []))
   \<and> (ret (fork_ans os) = - 1 \<longrightarrow>
        pty_spawn pf os environ (Some p) (Some a) envp (Some n) working_dir (Some v) s =
          (Returns (- 1), Some v,
           s\<lparr>errno := err (fork_ans os),
             calls := calls s @ [PthreadSigmask (sigfillset pf), Fork, PthreadSigmask (sigmask s)]\<rparr>))
   \<and> (ret (fork_ans os) \<noteq> - 1 \<and> ret (fork_ans os) \<noteq> 0 \<longrightarrow>
        fst (pty_spawn pf os environ (Some p) (Some a) envp (Some n) working_dir (Some v) s) =
          Returns 0
        \<and> fst (snd (pty_spawn pf os environ (Some p) (Some a) envp (Some n) working_dir (Some v) s)) =
          Some (ret (fork_ans os)))"
proof (intro conjI impI)
  show "sigmask (snd (snd (pty_spawn pf os environ path argv envp slave_name working_dir out_pid s))) =
     sigmask s"
    by (rule sigmask_pty_spawn)
next
  show "\<exists>r. calls (snd (snd (pty_spawn pf os environ (Some p) (Some a) envp (Some n) working_dir
                 (Some v) s))) =
            calls s @ [PthreadSigmask (sigfillset pf), Fork, PthreadSigmask (sigmask s)] @ r
          \<and> (ret (fork_ans os) = 0 \<or> r = [])"
  proof (cases "ret (fork_ans os) = 0")
    case True
    from calls_pty_spawn_child [OF True, of pf environ p a envp n working_dir v s]
    obtain r where "calls (snd (snd (pty_spawn pf os environ (Some p) (Some a) envp (Some n)
                 working_dir (Some v) s))) =
        calls s @ [PthreadSigmask (sigfillset pf), Fork, PthreadSigmask (sigmask s)]
          @ map Sigaction (resettable pf 1) @ [Setsid] @ r" by blast
    with True show ?thesis
      by (intro exI [of _ "map Sigaction (resettable pf 1) @ [Setsid] @ r"]) simp
  next
    case False
    then show ?thesis by (intro exI [of _ "[]"]) (simp add: pty_spawn_valid)
  qed
next
  assume "ret (fork_ans os) = - 1"
  then show "pty_spawn pf os environ (Some p) (Some a) envp (Some n) working_dir (Some v) s =
          (Returns (- 1), Some v,
           s\<lparr>errno := err (fork_ans os),
             calls := calls s @ [PthreadSigmask (sigfillset pf), Fork, PthreadSigmask (sigmask s)]\<rparr>)"
    by (simp add: pty_spawn_valid)
next
  assume "ret (fork_ans os) \<noteq> - 1 \<and> ret (fork_ans os) \<noteq> 0"
  then show "fst (pty_spawn pf os environ (Some p) (Some a) envp (Some n) working_dir (Some v) s) =
          Returns 0"
    and "fst (snd (pty_spawn pf os environ (Some p) (Some a) envp (Some n) working_dir (Some v) s)) =
          Some (ret (fork_ans os))"
    by (simp_all add: pty_spawn_valid)
qed

theorem pty_spawn_restores_sigmask_witness:
  "pty_spawn linux fork_fails [] (Some ''/bin/sh'') (Some [''sh'']) None (Some ''/dev/pts/7'')
      None (Some 0) (proc0\<lparr>sigmask := [17]\<rparr>) =
     (Returns (- 1), Some 0,
      \<lparr>sigmask = [17], errno = 11,
       calls = [PthreadSigmask (sigfillset linux), Fork, PthreadSigmask [17]]\<rparr>)
   \<and> fst (pty_spawn linux in_parent [] (Some ''/bin/sh'') (Some [''sh'']) None (Some ''/dev/pts/7'')
      None (Some 0) (proc0\<lparr>sigmask := [17]\<rparr>)) = Returns 0
   \<and> fst (snd (pty_spawn linux in_parent [] (Some ''/bin/sh'') (Some [''sh'']) None
      (Some ''/dev/pts/7'') None (Some 0) (proc0\<lparr>sigmask := [17]\<rparr>))) = Some 4242
   \<and> sigmask (snd (snd (pty_spawn linux in_parent [] (Some ''/bin/sh'') (Some [''sh'']) None
      (Some ''/dev/pts/7'') None (Some 0) (proc0\<lparr>sigmask := [17]\<rparr>)))) = [17]"
  using pty_spawn_restores_sigmask [where os = fork_fails and pf = linux and environ = "[]"
      and p = "''/bin/sh''" and a = "[''sh'']" and envp = None and n = "''/dev/pts/7''"
      and working_dir = None and v = 0 and s = "proc0\<lparr>sigmask := [17]\<rparr>"]
    pty_spawn_restores_sigmask [where os = in_parent and pf = linux and environ = "[]"
      and path = "Some ''/bin/sh''" and argv = "Some [''sh'']" and slave_name = "Some ''/dev/pts/7''"
      and out_pid = "Some 0"
      and p = "''/bin/sh''" and a = "[''sh'']" and envp = None and n = "''/dev/pts/7''"
      and working_dir = None and v = 0 and s = "proc0\<lparr>sigmask := [17]\<rparr>"]
  by (simp add: fork_fails_def in_parent_def in_child_def proc0_def)

text \<open>
  C7. \<open>pty_spawn\<close> with a \<^verbatim>\<open>NULL\<close> path, argument vector, slave name or pid cell, and
  \<open>pty_open\<close> with a \<^verbatim>\<open>NULL\<close> output or a buffer of fewer than 256 bytes, return \<open>-1\<close>
  with \<open>errno = EINVAL\<close>; no call is issued (\<open>calls\<close> and the signal mask are those of the
  state before) and no output cell is written.
\<close>

theorem invalid_argument_before_any_call:
  "(path = None \<or> argv = None \<or> slave_name = None \<or> out_pid = None \<longrightarrow>
      pty_spawn pf os environ path argv envp slave_name working_dir out_pid s =
        (Returns (- 1), out_pid, s\<lparr>errno := EINVAL\<rparr>))
   \<and> (out_master_fd = None \<or> out_slave_name = None \<or> slave_name_len < 256 \<longrightarrow>
      pty_open oos out_master_fd out_slave_name slave_name_len width height s =
        (- 1, out_master_fd, out_slave_name, s\<lparr>errno := EINVAL\<rparr>))"
  by (auto simp: pty_spawn_def pty_open_def split: option.splits)

theorem invalid_argument_before_any_call_witness:
  "pty_spawn linux in_child [] None (Some [''sh'']) None (Some ''/dev/pts/7'') None (Some 0) proc0 =
     (Returns (- 1), Some 0, \<lparr>sigmask = [], errno = 22, calls = []\<rparr>)
   \<and> pty_open opens_fine (Some 0) (Some []) 255 80 24 proc0 =
     (- 1, Some 0, Some [], \<lparr>sigmask = [], errno = 22, calls = []\<rparr>)"
  using invalid_argument_before_any_call [of None "Some [''sh'']" "Some ''/dev/pts/7''" "Some 0"
      linux in_child "[]" None None proc0 "Some 0" "Some []" 255 opens_fine 80 24]
  by (simp add: proc0_def EINVAL_def)

text \<open>
  C8. A call of \<open>pty_open\<close> that returns 0 has issued \<open>posix_openpt\<close>, \<open>grantpt\<close>,
  \<open>unlockpt\<close> and \<open>ptsname\<close>, followed by the \<^verbatim>\<open>TIOCSWINSZ\<close> request on the master exactly
  when both \<open>width\<close> and \<open>height\<close> are positive; with any other geometry the same call
  returns 0 as well, and the answer to the request is not looked at.
\<close>

theorem pty_open_geometry_push:
  assumes "fst (pty_open os out_master_fd out_slave_name slave_name_len width height s) = 0"
  shows "calls (snd (snd (snd (pty_open os out_master_fd out_slave_name slave_name_len width height s)))) =
      calls s @ [PosixOpenpt, Grantpt (ret (posix_openpt_ans os)), Unlockpt (ret (posix_openpt_ans os)),
                 Ptsname (ret (posix_openpt_ans os))]
        @ (if 0 < width \<and> 0 < height
           then [IoctlTIOCSWINSZ (ret (posix_openpt_ans os)) (make_winsize width height)] else [])
    \<and> fst (pty_open os out_master_fd out_slave_name slave_name_len width' height' s) = 0"
  using assms
  by (auto simp: pty_open_def close_and_fail_def sys_def os_call_def Let_def split: option.splits if_splits)

theorem pty_open_geometry_push_witness:
  "fst (pty_open opens_fine (Some 0) (Some []) 256 80 0 proc0) = 0
   \<and> calls (snd (snd (snd (pty_open opens_fine (Some 0) (Some []) 256 80 0 proc0)))) =
       [PosixOpenpt, Grantpt 5, Unlockpt 5, Ptsname 5]
   \<and> calls (snd (snd (snd (pty_open opens_fine (Some 0) (Some []) 256 80 24 proc0)))) =
       [PosixOpenpt, Grantpt 5, Unlockpt 5, Ptsname 5,
        IoctlTIOCSWINSZ 5 \<lparr>ws_row = 24, ws_col = 80, ws_xpixel = 0, ws_ypixel = 0\<rparr>]"
proof -
  have ok: "fst (pty_open opens_fine (Some 0) (Some []) 256 80 0 proc0) = 0"
    by (simp add: pty_open_def opens_fine_def proc0_def Let_def)
  have ok': "fst (pty_open opens_fine (Some 0) (Some []) 256 80 24 proc0) = 0"
    using pty_open_geometry_push [OF ok, of 80 24] by simp
  show ?thesis
    using ok pty_open_geometry_push [OF ok, of 80 24] pty_open_geometry_push [OF ok', of 80 24]
    by (simp add: opens_fine_def proc0_def make_winsize_def)
qed

text \<open>
  C9. With a timeout of exactly 0 ms \<open>pty_wait\<close> returns the timeout result 1 at once: it
  issues no call at all (no poll, so a child that has already terminated is not reaped),
  and the status cell is left as it was, whatever the operating system would have answered.
\<close>

theorem pty_wait_zero_timeout:
  "pty_wait w pid 0 out_status s = (Return 1, out_status, s)"
  by (simp add: pty_wait_def poll_loop.simps)

text \<open>
  C10. \<open>pty_resize\<close> issues the \<^verbatim>\<open>TIOCSWINSZ\<close> request with a \<^verbatim>\<open>struct winsize\<close> whose
  column and row fields are \<open>width\<close> and \<open>height\<close> modulo 65536 and whose pixel fields are
  0, and returns what the request returns; 65536 columns are delivered as 0. The geometry
  that a successful \<open>pty_open\<close> pushes (both dimensions positive) is the same record.
\<close>

theorem winsize_mod_65536:
  "pty_resize a master_fd width height s =
     (ret a, sys (IoctlTIOCSWINSZ master_fd (make_winsize width height)) a s)
   \<and> uint (ws_col (make_winsize width height)) = width mod 65536
   \<and> uint (ws_row (make_winsize width height)) = height mod 65536
   \<and> ws_xpixel (make_winsize width height) = 0
   \<and> ws_ypixel (make_winsize width height) = 0
   \<and> (fst (pty_open os out_master_fd out_slave_name slave_name_len width height s) = 0
        \<and> 0 < width \<and> 0 < height \<longrightarrow>
      last (calls (snd (snd (snd
        (pty_open os out_master_fd out_slave_name slave_name_len width height s))))) =
        IoctlTIOCSWINSZ (ret (posix_openpt_ans os)) (make_winsize width height))"
  by (auto simp: pty_resize_def make_winsize_def uint_word_of_int pty_open_def close_and_fail_def
      sys_def os_call_def Let_def split: option.splits if_splits)

theorem winsize_mod_65536_witness:
  "fst (pty_open opens_fine (Some 0) (Some []) 256 65536 24 proc0) = 0
   \<and> last (calls (snd (snd (snd (pty_open opens_fine (Some 0) (Some []) 256 65536 24 proc0))))) =
       IoctlTIOCSWINSZ 5 \<lparr>ws_row = 24, ws_col = 0, ws_xpixel = 0, ws_ypixel = 0\<rparr>"
proof -
  have ok: "fst (pty_open opens_fine (Some 0) (Some []) 256 65536 24 proc0) = 0"
    by (simp add: pty_open_def opens_fine_def proc0_def Let_def)
  show ?thesis
    using ok winsize_mod_65536 [where width = 65536 and height = 24 and os = opens_fine
        and out_master_fd = "Some 0" and out_slave_name = "Some []" and slave_name_len = 256
        and s = proc0]
    by (simp add: opens_fine_def make_winsize_def)
qed

end
